theory Spec2Isabelle
  imports Main
begin

section \<open>The MADOLA development server, \<^verbatim>\<open>web/serve.py\<close>\<close>

text \<open>
  The script is a straight line of calls into the Python standard library:
  \<^verbatim>\<open>
  web_dir = os.path.dirname(os.path.abspath(__file__))
  os.chdir(web_dir)
  PORT = 8000
  Handler = http.server.SimpleHTTPRequestHandler
  print(f"Serving MADOLA web app from: {web_dir}")
  print(f"Open your browser to: http://localhost:{PORT}")
  print("Press Ctrl+C to stop the server")
  try:
      with socketserver.TCPServer(("", PORT), Handler) as httpd:
          httpd.serve_forever()
  except KeyboardInterrupt:
      print("\nServer stopped.")
      sys.exit(0)
  \<close>
  It is embedded as a function from a \<^emph>\<open>world\<close> (everything the script cannot decide:
  where it was started, what the path functions of the library return, whether a
  system call raises) to the final process state and the way the process ends.
  The process state is passed explicitly; every library call that can raise has a
  branch for the exception.
\<close>

subsection \<open>Exceptions\<close>

text \<open>
  \<open>error\<close> stands for the exceptions below \<^verbatim>\<open>Exception\<close> (an \<^verbatim>\<open>OSError\<close> with its
  errno, or any other); \<^verbatim>\<open>KeyboardInterrupt\<close> is not one of them, and it is the only
  class the script's handler names.
\<close>

type_synonym path = string

datatype error = OSError nat | OtherError string

datatype raised = KeyboardInterrupt | Error error

text \<open>
  \<^verbatim>\<open>serve_forever\<close> is the library's accept loop. It either never returns, returns
  (after a shutdown request), or raises.
\<close>

datatype serve_outcome = Blocks | Returns | Raises raised

subsection \<open>The world\<close>

datatype handler_class = SimpleHTTPRequestHandler

record world =
  script_file :: path
  argv :: "string list"
  environ :: "string \<rightharpoonup> string"
  start_cwd :: path
  abspath :: "path \<Rightarrow> path \<Rightarrow> path"
  dirname :: "path \<Rightarrow> path"
  chdir_result :: "path \<Rightarrow> raised option"
  bind_result :: "string \<Rightarrow> nat \<Rightarrow> raised option"
  serve_result :: serve_outcome

text \<open>
  \<open>script_file\<close> is \<^verbatim>\<open>__file__\<close>; \<open>argv\<close> the arguments after the script's name;
  \<open>environ\<close> the environment variables; \<open>start_cwd\<close> the working directory the
  process starts in. \<open>abspath cwd p\<close> and \<open>dirname p\<close> are the results of
  \<^verbatim>\<open>os.path.abspath\<close> (which consults the current working directory) and
  \<^verbatim>\<open>os.path.dirname\<close>. \<open>chdir_result d\<close>, \<open>bind_result host port\<close> and
  \<open>serve_result\<close> say what \<^verbatim>\<open>os.chdir\<close>, the \<^verbatim>\<open>TCPServer\<close> constructor and
  \<^verbatim>\<open>serve_forever\<close> do in this world: \<open>None\<close> is a normal return.

  What a request is answered with is decided inside \<^verbatim>\<open>serve_forever\<close>, by the
  library's handler class over the file system; the script contributes the class
  it passes, the address and the working directory, and those are what the model
  records.
\<close>

subsection \<open>The process\<close>

datatype call =
    Chdir path
  | Print string
  | TCPServer string nat handler_class
  | ServeForever
  | ServerClose
  | SysExit int

text \<open>
  The process state: its working directory, the arguments of the \<^verbatim>\<open>print\<close> calls
  so far (each one is written to standard output followed by a newline), the
  address of the listening socket if there is one, and the library calls made so
  far, each with the working directory it was made in.
\<close>

record proc =
  cwd :: path
  stdout :: "string list"
  listening :: "(string \<times> nat) option"
  calls :: "(path \<times> call) list"

datatype outcome = Exited int | Uncaught raised | Serving

definition boot :: "world \<Rightarrow> proc" where
  "boot w = \<lparr>cwd = start_cwd w, stdout = [], listening = None, calls = []\<rparr>"

definition record_call :: "call \<Rightarrow> proc \<Rightarrow> proc" where
  "record_call c p = p\<lparr>calls := calls p @ [(cwd p, c)]\<rparr>"

definition os_chdir :: "world \<Rightarrow> path \<Rightarrow> proc \<Rightarrow> raised option \<times> proc" where
  "os_chdir w d p =
     (case chdir_result w d of
        Some r \<Rightarrow> (Some r, record_call (Chdir d) p)
      | None \<Rightarrow> (None, (record_call (Chdir d) p)\<lparr>cwd := d\<rparr>))"

definition print :: "string \<Rightarrow> proc \<Rightarrow> proc" where
  "print s p = (record_call (Print s) p)\<lparr>stdout := stdout p @ [s]\<rparr>"

definition tcp_server ::
  "world \<Rightarrow> string \<times> nat \<Rightarrow> handler_class \<Rightarrow> proc \<Rightarrow> raised option \<times> proc" where
  "tcp_server w addr h p =
     (let p' = record_call (TCPServer (fst addr) (snd addr) h) p in
      case bind_result w (fst addr) (snd addr) of
        Some r \<Rightarrow> (Some r, p')
      | None \<Rightarrow> (None, p'\<lparr>listening := Some addr\<rparr>))"

definition serve_forever :: "world \<Rightarrow> proc \<Rightarrow> serve_outcome \<times> proc" where
  "serve_forever w p = (serve_result w, record_call ServeForever p)"

definition server_close :: "proc \<Rightarrow> proc" where
  "server_close p = (record_call ServerClose p)\<lparr>listening := None\<rparr>"

definition sys_exit :: "int \<Rightarrow> proc \<Rightarrow> outcome \<times> proc" where
  "sys_exit n p = (Exited n, record_call (SysExit n) p)"

subsection \<open>Formatting the port\<close>

text \<open>The f-string formats \<^verbatim>\<open>PORT\<close> with \<^verbatim>\<open>str\<close>: the decimal digits.\<close>

definition digit_char :: "nat \<Rightarrow> char" where
  "digit_char d = ''0123456789'' ! d"

fun str :: "nat \<Rightarrow> string" where
  "str n = (if n < 10 then [digit_char n] else str (n div 10) @ [digit_char (n mod 10)])"

declare str.simps [simp del]

subsection \<open>The script\<close>

definition PORT :: nat where
  "PORT = 8000"

definition Handler :: handler_class where
  "Handler = SimpleHTTPRequestHandler"

definition web_dir :: "world \<Rightarrow> path" where
  "web_dir w = dirname w (abspath w (start_cwd w) (script_file w))"

text \<open>
  The body of the \<^verbatim>\<open>try\<close>. Leaving the \<^verbatim>\<open>with\<close> block, normally or by an exception,
  closes the server; an exception of the constructor leaves no server to close.
\<close>

definition with_server :: "world \<Rightarrow> proc \<Rightarrow> serve_outcome \<times> proc" where
  "with_server w p =
     (case tcp_server w ('''', PORT) Handler p of
        (Some r, p1) \<Rightarrow> (Raises r, p1)
      | (None, p1) \<Rightarrow>
          (case serve_forever w p1 of
             (Blocks, p2) \<Rightarrow> (Blocks, p2)
           | (Returns, p2) \<Rightarrow> (Returns, server_close p2)
           | (Raises r, p2) \<Rightarrow> (Raises r, server_close p2)))"

definition main :: "world \<Rightarrow> outcome \<times> proc" where
  "main w =
     (let d = web_dir w in
      case os_chdir w d (boot w) of
        (Some r, p) \<Rightarrow> (Uncaught r, p)
      | (None, p0) \<Rightarrow>
          (let p1 = print (''Serving MADOLA web app from: '' @ d) p0;
               p2 = print (''Open your browser to: http://localhost:'' @ str PORT) p1;
               p3 = print ''Press Ctrl+C to stop the server'' p2
           in case with_server w p3 of
                (Raises KeyboardInterrupt, p4) \<Rightarrow>
                  sys_exit 0 (print (CHR 0x0A # ''Server stopped.'') p4)
              | (Raises (Error e), p4) \<Rightarrow> (Uncaught (Error e), p4)
              | (Returns, p4) \<Rightarrow> (Exited 0, p4)
              | (Blocks, p4) \<Rightarrow> (Serving, p4)))"

subsection \<open>How the interpreter ends the process\<close>

text \<open>
  \<^verbatim>\<open>sys.exit(n)\<close> and the end of the script give the exit status; an exception nobody
  caught makes the interpreter write its traceback to standard error and end with
  status 1, or, for \<^verbatim>\<open>KeyboardInterrupt\<close>, as a process killed by the interrupt
  signal (status 130 to a shell). A process still serving has no status.
\<close>

fun exit_status :: "outcome \<Rightarrow> int option" where
  "exit_status (Exited n) = Some n"
| "exit_status (Uncaught (Error e)) = Some 1"
| "exit_status (Uncaught KeyboardInterrupt) = Some 130"
| "exit_status Serving = None"

fun traceback :: "outcome \<Rightarrow> raised option" where
  "traceback (Uncaught r) = Some r"
| "traceback (Exited n) = None"
| "traceback Serving = None"

subsection \<open>Reading the log of calls\<close>

definition before :: "call \<Rightarrow> (path \<times> call) list \<Rightarrow> call list" where
  "before c cs = takeWhile (\<lambda>x. x \<noteq> c) (map snd cs)"

fun is_chdir :: "call \<Rightarrow> bool" where
  "is_chdir (Chdir d) = True"
| "is_chdir c = False"

subsection \<open>A sample world\<close>

text \<open>
  The script at \<^verbatim>\<open>/srv/madola/web/serve.py\<close>, started from \<^verbatim>\<open>/home/dev\<close> on a POSIX
  system: \<open>posix_dirname\<close> cuts after the last slash and strips the slashes the head
  ends with, and an absolute, normalised path is its own \<^verbatim>\<open>abspath\<close>. The three
  parameters are the results of \<^verbatim>\<open>os.chdir\<close>, of binding and of serving.
\<close>

definition posix_dirname :: "path \<Rightarrow> path" where
  "posix_dirname p =
     (let head = rev (dropWhile (\<lambda>c. c \<noteq> CHR ''/'') (rev p)) in
      if head \<noteq> [] \<and> (\<exists>c \<in> set head. c \<noteq> CHR ''/'')
      then rev (dropWhile (\<lambda>c. c = CHR ''/'') (rev head)) else head)"

definition sample_abspath :: "path \<Rightarrow> path \<Rightarrow> path" where
  "sample_abspath dir p = (if take 1 p = ''/'' then p else dir @ ''/'' @ p)"

definition sample_world :: "raised option \<Rightarrow> raised option \<Rightarrow> serve_outcome \<Rightarrow> world" where
  "sample_world c b s =
     \<lparr>script_file = ''/srv/madola/web/serve.py'',
      argv = [],
      environ = Map.empty,
      start_cwd = ''/home/dev'',
      abspath = sample_abspath,
      dirname = posix_dirname,
      chdir_result = (\<lambda>d. c),
      bind_result = (\<lambda>h n. b),
      serve_result = s\<rparr>"

section \<open>Properties\<close>

subsection \<open>Running the script\<close>

lemmas step_defs = main_def with_server_def os_chdir_def print_def tcp_server_def
  serve_forever_def server_close_def sys_exit_def record_call_def boot_def Let_def

lemma str_PORT: "str PORT = ''8000''"
  by (simp add: PORT_def str.simps digit_char_def)

lemma str_8000: "str 8000 = ''8000''"
  using str_PORT by (simp add: PORT_def)

text \<open>
  The script has seven runs, told apart by what the three calls that can raise do.
  Each lemma gives the outcome and the final state of one of them.
\<close>

lemma run_chdir_raises:
  assumes "chdir_result w (web_dir w) = Some r"
  shows "main w =
    (Uncaught r,
     \<lparr>cwd = start_cwd w, stdout = [], listening = None,
      calls = [(start_cwd w, Chdir (web_dir w))]\<rparr>)"
  using assms by (simp add: step_defs)

lemma run_bind_interrupted:
  assumes "chdir_result w (web_dir w) = None"
    and "bind_result w '''' 8000 = Some KeyboardInterrupt"
  shows "main w =
    (Exited 0,
     \<lparr>cwd = web_dir w,
      stdout =
        [''Serving MADOLA web app from: '' @ web_dir w,
         ''Open your browser to: http://localhost:8000'',
         ''Press Ctrl+C to stop the server'',
         CHR 0x0A # ''Server stopped.''],
      listening = None,
      calls =
        [(start_cwd w, Chdir (web_dir w)),
         (web_dir w, Print (''Serving MADOLA web app from: '' @ web_dir w)),
         (web_dir w, Print ''Open your browser to: http://localhost:8000''),
         (web_dir w, Print ''Press Ctrl+C to stop the server''),
         (web_dir w, TCPServer '''' 8000 SimpleHTTPRequestHandler),
         (web_dir w, Print (CHR 0x0A # ''Server stopped.'')),
         (web_dir w, SysExit 0)]\<rparr>)"
  using assms by (simp add: step_defs str_8000 PORT_def Handler_def)

lemma run_bind_raises:
  assumes "chdir_result w (web_dir w) = None" and "bind_result w '''' 8000 = Some (Error e)"
  shows "main w =
    (Uncaught (Error e),
     \<lparr>cwd = web_dir w,
      stdout =
        [''Serving MADOLA web app from: '' @ web_dir w,
         ''Open your browser to: http://localhost:8000'',
         ''Press Ctrl+C to stop the server''],
      listening = None,
      calls =
        [(start_cwd w, Chdir (web_dir w)),
         (web_dir w, Print (''Serving MADOLA web app from: '' @ web_dir w)),
         (web_dir w, Print ''Open your browser to: http://localhost:8000''),
         (web_dir w, Print ''Press Ctrl+C to stop the server''),
         (web_dir w, TCPServer '''' 8000 SimpleHTTPRequestHandler)]\<rparr>)"
  using assms by (simp add: step_defs str_8000 PORT_def Handler_def)

lemma run_serving:
  assumes "chdir_result w (web_dir w) = None" and "bind_result w '''' 8000 = None"
    and "serve_result w = Blocks"
  shows "main w =
    (Serving,
     \<lparr>cwd = web_dir w,
      stdout =
        [''Serving MADOLA web app from: '' @ web_dir w,
         ''Open your browser to: http://localhost:8000'',
         ''Press Ctrl+C to stop the server''],
      listening = Some ('''', 8000),
      calls =
        [(start_cwd w, Chdir (web_dir w)),
         (web_dir w, Print (''Serving MADOLA web app from: '' @ web_dir w)),
         (web_dir w, Print ''Open your browser to: http://localhost:8000''),
         (web_dir w, Print ''Press Ctrl+C to stop the server''),
         (web_dir w, TCPServer '''' 8000 SimpleHTTPRequestHandler),
         (web_dir w, ServeForever)]\<rparr>)"
  using assms by (simp add: step_defs str_8000 PORT_def Handler_def)

lemma run_returns:
  assumes "chdir_result w (web_dir w) = None" and "bind_result w '''' 8000 = None"
    and "serve_result w = Returns"
  shows "main w =
    (Exited 0,
     \<lparr>cwd = web_dir w,
      stdout =
        [''Serving MADOLA web app from: '' @ web_dir w,
         ''Open your browser to: http://localhost:8000'',
         ''Press Ctrl+C to stop the server''],
      listening = None,
      calls =
        [(start_cwd w, Chdir (web_dir w)),
         (web_dir w, Print (''Serving MADOLA web app from: '' @ web_dir w)),
         (web_dir w, Print ''Open your browser to: http://localhost:8000''),
         (web_dir w, Print ''Press Ctrl+C to stop the server''),
         (web_dir w, TCPServer '''' 8000 SimpleHTTPRequestHandler),
         (web_dir w, ServeForever),
         (web_dir w, ServerClose)]\<rparr>)"
  using assms by (simp add: step_defs str_8000 PORT_def Handler_def)

lemma run_interrupted:
  assumes "chdir_result w (web_dir w) = None" and "bind_result w '''' 8000 = None"
    and "serve_result w = Raises KeyboardInterrupt"
  shows "main w =
    (Exited 0,
     \<lparr>cwd = web_dir w,
      stdout =
        [''Serving MADOLA web app from: '' @ web_dir w,
         ''Open your browser to: http://localhost:8000'',
         ''Press Ctrl+C to stop the server'',
         CHR 0x0A # ''Server stopped.''],
      listening = None,
      calls =
        [(start_cwd w, Chdir (web_dir w)),
         (web_dir w, Print (''Serving MADOLA web app from: '' @ web_dir w)),
         (web_dir w, Print ''Open your browser to: http://localhost:8000''),
         (web_dir w, Print ''Press Ctrl+C to stop the server''),
         (web_dir w, TCPServer '''' 8000 SimpleHTTPRequestHandler),
         (web_dir w, ServeForever),
         (web_dir w, ServerClose),
         (web_dir w, Print (CHR 0x0A # ''Server stopped.'')),
         (web_dir w, SysExit 0)]\<rparr>)"
  using assms by (simp add: step_defs str_8000 PORT_def Handler_def)

lemma run_serve_raises:
  assumes "chdir_result w (web_dir w) = None" and "bind_result w '''' 8000 = None"
    and "serve_result w = Raises (Error e)"
  shows "main w =
    (Uncaught (Error e),
     \<lparr>cwd = web_dir w,
      stdout =
        [''Serving MADOLA web app from: '' @ web_dir w,
         ''Open your browser to: http://localhost:8000'',
         ''Press Ctrl+C to stop the server''],
      listening = None,
      calls =
        [(start_cwd w, Chdir (web_dir w)),
         (web_dir w, Print (''Serving MADOLA web app from: '' @ web_dir w)),
         (web_dir w, Print ''Open your browser to: http://localhost:8000''),
         (web_dir w, Print ''Press Ctrl+C to stop the server''),
         (web_dir w, TCPServer '''' 8000 SimpleHTTPRequestHandler),
         (web_dir w, ServeForever),
         (web_dir w, ServerClose)]\<rparr>)"
  using assms by (simp add: step_defs str_8000 PORT_def Handler_def)

text \<open>Every world is in exactly one of the seven cases.\<close>

lemma world_cases [case_names chdir_raises bind_interrupted bind_raises serving returns
    interrupted serve_raises]:
  fixes w :: world
  obtains r where "chdir_result w (web_dir w) = Some r"
  | "chdir_result w (web_dir w) = None" "bind_result w '''' 8000 = Some KeyboardInterrupt"
  | e where "chdir_result w (web_dir w) = None" "bind_result w '''' 8000 = Some (Error e)"
  | "chdir_result w (web_dir w) = None" "bind_result w '''' 8000 = None"
      "serve_result w = Blocks"
  | "chdir_result w (web_dir w) = None" "bind_result w '''' 8000 = None"
      "serve_result w = Returns"
  | "chdir_result w (web_dir w) = None" "bind_result w '''' 8000 = None"
      "serve_result w = Raises KeyboardInterrupt"
  | e where "chdir_result w (web_dir w) = None" "bind_result w '''' 8000 = None"
      "serve_result w = Raises (Error e)"
proof (cases "chdir_result w (web_dir w)")
  case (Some r)
  then show ?thesis using that(1) by blast
next
  case chdir: None
  show ?thesis
  proof (cases "bind_result w '''' 8000")
    case (Some r)
    with chdir show ?thesis using that(2,3) by (cases r) auto
  next
    case bind: None
    show ?thesis
    proof (cases "serve_result w")
      case Blocks
      with chdir bind show ?thesis using that(4) by blast
    next
      case Returns
      with chdir bind show ?thesis using that(5) by blast
    next
      case (Raises r)
      with chdir bind show ?thesis using that(6,7) by (cases r) auto
    qed
  qed
qed

lemmas runs = run_chdir_raises run_bind_interrupted run_bind_raises run_serving
  run_returns run_interrupted run_serve_raises

subsection \<open>The sample world\<close>

lemma web_dir_sample: "web_dir (sample_world c b s) = ''/srv/madola/web''"
  by (simp add: web_dir_def sample_world_def sample_abspath_def posix_dirname_def)

lemma sample_world_results [simp]:
  "chdir_result (sample_world c b s) d = c"
  "bind_result (sample_world c b s) h n = b"
  "serve_result (sample_world c b s) = s"
  "start_cwd (sample_world c b s) = ''/home/dev''"
  by (simp_all add: sample_world_def)

section \<open>The claims\<close>

subsection \<open>Startup\<close>

text \<open>
  C2. At startup, before any request is served, the program resolves the absolute
  path of the directory that contains the launch script and makes it the serving
  root by changing the working directory to it: \<open>web_dir\<close> is the directory name of
  the absolute path of \<^verbatim>\<open>__file__\<close>; the first call of every run is \<^verbatim>\<open>os.chdir\<close> to
  it; when that call returns, the process ends in that directory; and
  \<^verbatim>\<open>serve_forever\<close> is only ever entered from it.
\<close>

theorem chdir_to_script_directory_first:
  "web_dir w = dirname w (abspath w (start_cwd w) (script_file w)) \<and>
   take 1 (calls (snd (main w))) = [(start_cwd w, Chdir (web_dir w))] \<and>
   (chdir_result w (web_dir w) = None \<longrightarrow> cwd (snd (main w)) = web_dir w) \<and>
   (\<forall>c. (c, ServeForever) \<in> set (calls (snd (main w))) \<longrightarrow> c = web_dir w)"
proof (cases w rule: world_cases)
  case (chdir_raises r)
  then show ?thesis by (simp add: run_chdir_raises web_dir_def)
next
  case bind_interrupted
  then show ?thesis by (simp add: run_bind_interrupted web_dir_def)
next
  case (bind_raises e)
  then show ?thesis by (simp add: run_bind_raises web_dir_def)
next
  case serving
  then show ?thesis by (simp add: run_serving web_dir_def)
next
  case returns
  then show ?thesis by (simp add: run_returns web_dir_def)
next
  case interrupted
  then show ?thesis by (simp add: run_interrupted web_dir_def)
next
  case (serve_raises e)
  then show ?thesis by (simp add: run_serve_raises web_dir_def)
qed

theorem chdir_to_script_directory_first_witness:
  "chdir_result (sample_world None None Blocks) (web_dir (sample_world None None Blocks)) = None \<and>
   (''/srv/madola/web'', ServeForever) \<in> set (calls (snd (main (sample_world None None Blocks)))) \<and>
   take 1 (calls (snd (main (sample_world None None Blocks)))) =
     [(''/home/dev'', Chdir ''/srv/madola/web'')] \<and>
   cwd (snd (main (sample_world None None Blocks))) = ''/srv/madola/web''"
  using chdir_to_script_directory_first [of "sample_world None None Blocks"]
    run_serving [of "sample_world None None Blocks"]
  by (simp add: web_dir_sample)

text \<open>
  C3. The port is the constant 8000, and neither the arguments nor the environment
  are read: replacing both leaves the whole run unchanged (outcome, output, calls,
  listening socket and working directory), the serving root is the same, and a
  listening socket, if there is one, is on port 8000.
\<close>

theorem port_and_root_ignore_arguments_and_environment:
  "main (w\<lparr>argv := a, environ := e\<rparr>) = main w \<and>
   web_dir (w\<lparr>argv := a, environ := e\<rparr>) = web_dir w \<and>
   PORT = 8000 \<and>
   listening (snd (main (w\<lparr>argv := a, environ := e\<rparr>))) \<in> {None, Some ('''', 8000)}"
proof -
  let ?w' = "w\<lparr>argv := a, environ := e\<rparr>"
  have root: "web_dir ?w' = web_dir w"
    by (simp add: web_dir_def)
  have boot: "boot ?w' = boot w"
    by (simp add: boot_def)
  have chdir: "os_chdir ?w' = os_chdir w"
    by (simp add: os_chdir_def fun_eq_iff)
  have tcp: "tcp_server ?w' = tcp_server w"
    by (simp add: tcp_server_def fun_eq_iff)
  have serve: "serve_forever ?w' = serve_forever w"
    by (simp add: serve_forever_def fun_eq_iff)
  have server: "with_server ?w' = with_server w"
    unfolding with_server_def tcp serve by (rule refl)
  have same: "main ?w' = main w"
    unfolding main_def root boot chdir server by (rule refl)
  have "listening (snd (main w)) \<in> {None, Some ('''', 8000)}"
    by (cases w rule: world_cases) (simp_all add: runs)
  with same root show ?thesis by (simp add: PORT_def)
qed

theorem port_and_root_ignore_arguments_and_environment_witness:
  "listening (snd (main ((sample_world None None Blocks)
      \<lparr>argv := [''--port'', ''9000''], environ := [''PORT'' \<mapsto> ''9000'']\<rparr>)))
     = Some ('''', 8000) \<and>
   cwd (snd (main ((sample_world None None Blocks)
      \<lparr>argv := [''--port'', ''9000''], environ := [''PORT'' \<mapsto> ''9000'']\<rparr>)))
     = ''/srv/madola/web''"
  using port_and_root_ignore_arguments_and_environment
      [where w = "sample_world None None Blocks" and a = "[''--port'', ''9000'']"
        and e = "[''PORT'' \<mapsto> ''9000'']"]
    run_serving [of "sample_world None None Blocks"]
  by (simp add: web_dir_sample)

text \<open>
  C6. Before the serve loop is entered the program has printed a line with the
  resolved serving root and a line with the URL \<^verbatim>\<open>http://localhost:<port>\<close>, the port
  being the one the listener was created on: in every run that enters
  \<^verbatim>\<open>serve_forever\<close>, both \<^verbatim>\<open>print\<close> calls and the listener's creation on \<open>PORT\<close> come
  before it, and the two lines are the first two of standard output.
\<close>

theorem startup_lines_before_serve_loop:
  assumes "(c, ServeForever) \<in> set (calls (snd (main w)))"
  shows "Print (''Serving MADOLA web app from: '' @ web_dir w)
           \<in> set (before ServeForever (calls (snd (main w)))) \<and>
         Print (''Open your browser to: http://localhost:'' @ str PORT)
           \<in> set (before ServeForever (calls (snd (main w)))) \<and>
         TCPServer '''' PORT Handler \<in> set (before ServeForever (calls (snd (main w)))) \<and>
         str PORT = ''8000'' \<and>
         take 2 (stdout (snd (main w))) =
           [''Serving MADOLA web app from: '' @ web_dir w,
            ''Open your browser to: http://localhost:8000'']"
  using assms
  by (cases w rule: world_cases)
    (simp_all add: runs before_def str_PORT str_8000 PORT_def Handler_def)

theorem startup_lines_before_serve_loop_witness:
  "(''/srv/madola/web'', ServeForever) \<in> set (calls (snd (main (sample_world None None Blocks)))) \<and>
   before ServeForever (calls (snd (main (sample_world None None Blocks)))) =
     [Chdir ''/srv/madola/web'',
      Print ''Serving MADOLA web app from: /srv/madola/web'',
      Print ''Open your browser to: http://localhost:8000'',
      Print ''Press Ctrl+C to stop the server'',
      TCPServer '''' 8000 SimpleHTTPRequestHandler] \<and>
   take 2 (stdout (snd (main (sample_world None None Blocks)))) =
     [''Serving MADOLA web app from: /srv/madola/web'',
      ''Open your browser to: http://localhost:8000'']"
proof -
  have reached: "(''/srv/madola/web'', ServeForever)
      \<in> set (calls (snd (main (sample_world None None Blocks))))"
    using run_serving [of "sample_world None None Blocks"] by (simp add: web_dir_sample)
  have log: "before ServeForever (calls (snd (main (sample_world None None Blocks)))) =
     [Chdir ''/srv/madola/web'',
      Print ''Serving MADOLA web app from: /srv/madola/web'',
      Print ''Open your browser to: http://localhost:8000'',
      Print ''Press Ctrl+C to stop the server'',
      TCPServer '''' 8000 SimpleHTTPRequestHandler]"
    using run_serving [of "sample_world None None Blocks"]
    by (simp add: web_dir_sample before_def)
  show ?thesis
    using startup_lines_before_serve_loop [OF reached] reached log
    by (simp add: web_dir_sample)
qed

text \<open>
  C7. The listener is bound to all interfaces, the empty host string, on the fixed
  port: every \<^verbatim>\<open>TCPServer\<close> call of every run has host \<^verbatim>\<open>""\<close> and port 8000, a
  listening socket is never on another address, and when nothing raises the
  process listens on exactly that address.
\<close>

theorem listener_bound_to_all_interfaces:
  "(\<forall>c h n k. (c, TCPServer h n k) \<in> set (calls (snd (main w))) \<longrightarrow> h = '''' \<and> n = 8000) \<and>
   listening (snd (main w)) \<in> {None, Some ('''', 8000)} \<and>
   (chdir_result w (web_dir w) = None \<and> bind_result w '''' PORT = None \<and>
    serve_result w = Blocks \<longrightarrow> listening (snd (main w)) = Some ('''', 8000))"
  by (cases w rule: world_cases) (simp_all add: runs PORT_def)

theorem listener_bound_to_all_interfaces_witness:
  "(''/srv/madola/web'', TCPServer '''' 8000 SimpleHTTPRequestHandler)
     \<in> set (calls (snd (main (sample_world None None Blocks)))) \<and>
   chdir_result (sample_world None None Blocks) (web_dir (sample_world None None Blocks)) = None \<and>
   bind_result (sample_world None None Blocks) '''' PORT = None \<and>
   serve_result (sample_world None None Blocks) = Blocks \<and>
   listening (snd (main (sample_world None None Blocks))) = Some ('''', 8000)"
  using listener_bound_to_all_interfaces [of "sample_world None None Blocks"]
    run_serving [of "sample_world None None Blocks"]
  by (simp add: web_dir_sample)

subsection \<open>Interrupts and faults\<close>

text \<open>
  C4. When \<^verbatim>\<open>KeyboardInterrupt\<close> is raised while the server runs, the program prints
  exactly one notice and ends with exit status 0: the run is a clean exit with no
  traceback, standard output is the three startup lines followed by the one
  notice, after \<^verbatim>\<open>serve_forever\<close> the only calls are the closing of the server, the
  one \<^verbatim>\<open>print\<close> and \<^verbatim>\<open>sys.exit(0)\<close>, and nothing is left listening.
\<close>

theorem interrupt_while_serving_exits_zero:
  assumes "chdir_result w (web_dir w) = None" and "bind_result w '''' PORT = None"
    and "serve_result w = Raises KeyboardInterrupt"
  shows "fst (main w) = Exited 0 \<and> exit_status (fst (main w)) = Some 0 \<and>
    traceback (fst (main w)) = None \<and>
    stdout (snd (main w)) =
      [''Serving MADOLA web app from: '' @ web_dir w,
       ''Open your browser to: http://localhost:8000'',
       ''Press Ctrl+C to stop the server'',
       CHR 0x0A # ''Server stopped.''] \<and>
    dropWhile (\<lambda>c. c \<noteq> ServeForever) (map snd (calls (snd (main w)))) =
      [ServeForever, ServerClose, Print (CHR 0x0A # ''Server stopped.''), SysExit 0] \<and>
    listening (snd (main w)) = None"
proof -
  from assms have "bind_result w '''' 8000 = None"
    by (simp add: PORT_def)
  with assms show ?thesis
    by (simp add: run_interrupted)
qed

theorem interrupt_while_serving_exits_zero_witness:
  "chdir_result (sample_world None None (Raises KeyboardInterrupt))
     (web_dir (sample_world None None (Raises KeyboardInterrupt))) = None \<and>
   bind_result (sample_world None None (Raises KeyboardInterrupt)) '''' PORT = None \<and>
   serve_result (sample_world None None (Raises KeyboardInterrupt)) = Raises KeyboardInterrupt \<and>
   exit_status (fst (main (sample_world None None (Raises KeyboardInterrupt)))) = Some 0 \<and>
   stdout (snd (main (sample_world None None (Raises KeyboardInterrupt)))) =
     [''Serving MADOLA web app from: /srv/madola/web'',
      ''Open your browser to: http://localhost:8000'',
      ''Press Ctrl+C to stop the server'',
      CHR 0x0A # ''Server stopped.'']"
  using interrupt_while_serving_exits_zero [of "sample_world None None (Raises KeyboardInterrupt)"]
  by (simp add: web_dir_sample)

text \<open>
  C5. A startup fault other than a user interrupt is not caught: when \<^verbatim>\<open>os.chdir\<close> or
  the creation of the listener raises an exception \<open>Error e\<close> (the port in use,
  permission denied), that exception reaches the interpreter, which writes its
  traceback and ends the process with status 1; the interrupt notice is not
  printed and nothing is left listening.
\<close>

theorem startup_faults_propagate:
  "(chdir_result w (web_dir w) = Some (Error e) \<longrightarrow>
      fst (main w) = Uncaught (Error e) \<and> exit_status (fst (main w)) = Some 1 \<and>
      traceback (fst (main w)) = Some (Error e) \<and> stdout (snd (main w)) = [] \<and>
      listening (snd (main w)) = None) \<and>
   (chdir_result w (web_dir w) = None \<and> bind_result w '''' PORT = Some (Error e) \<longrightarrow>
      fst (main w) = Uncaught (Error e) \<and> exit_status (fst (main w)) = Some 1 \<and>
      traceback (fst (main w)) = Some (Error e) \<and>
      CHR 0x0A # ''Server stopped.'' \<notin> set (stdout (snd (main w))) \<and>
      listening (snd (main w)) = None)"
  by (simp add: run_chdir_raises run_bind_raises PORT_def)

theorem startup_faults_propagate_witness:
  "chdir_result (sample_world (Some (Error (OSError 2))) None Blocks)
     (web_dir (sample_world (Some (Error (OSError 2))) None Blocks)) = Some (Error (OSError 2)) \<and>
   exit_status (fst (main (sample_world (Some (Error (OSError 2))) None Blocks))) = Some 1 \<and>
   chdir_result (sample_world None (Some (Error (OSError 98))) Blocks)
     (web_dir (sample_world None (Some (Error (OSError 98))) Blocks)) = None \<and>
   bind_result (sample_world None (Some (Error (OSError 98))) Blocks) '''' PORT
     = Some (Error (OSError 98)) \<and>
   fst (main (sample_world None (Some (Error (OSError 98))) Blocks)) = Uncaught (Error (OSError 98)) \<and>
   exit_status (fst (main (sample_world None (Some (Error (OSError 98))) Blocks))) = Some 1 \<and>
   traceback (fst (main (sample_world None (Some (Error (OSError 98))) Blocks)))
     = Some (Error (OSError 98))"
  using startup_faults_propagate
      [of "sample_world (Some (Error (OSError 2))) None Blocks" "OSError 2"]
    startup_faults_propagate
      [of "sample_world None (Some (Error (OSError 98))) Blocks" "OSError 98"]
  by simp

subsection \<open>The serving root and the working directory\<close>

text \<open>
  C8. The root is resolved once, at startup, from the script's own location, and
  never again: every run makes exactly one \<^verbatim>\<open>os.chdir\<close> call, to \<open>web_dir\<close>; once it
  has returned, every later call of the run is made in that directory, and the
  process ends in it.
\<close>

theorem serving_root_resolved_once:
  "filter is_chdir (map snd (calls (snd (main w)))) = [Chdir (web_dir w)] \<and>
   (chdir_result w (web_dir w) = None \<longrightarrow>
      cwd (snd (main w)) = web_dir w \<and>
      (\<forall>(c, x) \<in> set (tl (calls (snd (main w)))). c = web_dir w))"
  by (cases w rule: world_cases) (simp_all add: runs)

theorem serving_root_resolved_once_witness:
  "chdir_result (sample_world None None Blocks) (web_dir (sample_world None None Blocks)) = None \<and>
   (''/srv/madola/web'', ServeForever)
     \<in> set (tl (calls (snd (main (sample_world None None Blocks))))) \<and>
   filter is_chdir (map snd (calls (snd (main (sample_world None None Blocks)))))
     = [Chdir ''/srv/madola/web''] \<and>
   cwd (snd (main (sample_world None None Blocks))) = ''/srv/madola/web''"
  using serving_root_resolved_once [of "sample_world None None Blocks"]
    run_serving [of "sample_world None None Blocks"]
  by (simp add: web_dir_sample)

text \<open>
  C9. The startup messages are printed strictly before the listener is created:
  in every run that reaches the \<^verbatim>\<open>TCPServer\<close> call, the calls before it are the
  \<^verbatim>\<open>os.chdir\<close> and the three \<^verbatim>\<open>print\<close> calls; and when the creation of the listener
  raises, the serving-root and URL lines are on standard output although nothing
  listens and \<^verbatim>\<open>serve_forever\<close> was never entered.
\<close>

theorem startup_lines_before_listener:
  assumes "(c, TCPServer h n k) \<in> set (calls (snd (main w)))"
  shows "before (TCPServer h n k) (calls (snd (main w))) =
      [Chdir (web_dir w),
       Print (''Serving MADOLA web app from: '' @ web_dir w),
       Print ''Open your browser to: http://localhost:8000'',
       Print ''Press Ctrl+C to stop the server''] \<and>
    (bind_result w h n \<noteq> None \<longrightarrow>
       take 3 (stdout (snd (main w))) =
         [''Serving MADOLA web app from: '' @ web_dir w,
          ''Open your browser to: http://localhost:8000'',
          ''Press Ctrl+C to stop the server''] \<and>
       listening (snd (main w)) = None \<and>
       ServeForever \<notin> snd ` set (calls (snd (main w))))"
  using assms
proof (cases w rule: world_cases)
  case (chdir_raises r)
  with assms show ?thesis by (simp add: run_chdir_raises)
next
  case bind_interrupted
  with assms show ?thesis by (auto simp: run_bind_interrupted before_def)
next
  case (bind_raises e)
  with assms show ?thesis by (auto simp: run_bind_raises before_def)
next
  case serving
  with assms show ?thesis by (auto simp: run_serving before_def)
next
  case returns
  with assms show ?thesis by (auto simp: run_returns before_def)
next
  case interrupted
  with assms show ?thesis by (auto simp: run_interrupted before_def)
next
  case (serve_raises e)
  with assms show ?thesis by (auto simp: run_serve_raises before_def)
qed

theorem startup_lines_before_listener_witness:
  "(''/srv/madola/web'', TCPServer '''' 8000 SimpleHTTPRequestHandler)
     \<in> set (calls (snd (main (sample_world None (Some (Error (OSError 98))) Blocks)))) \<and>
   bind_result (sample_world None (Some (Error (OSError 98))) Blocks) '''' 8000 \<noteq> None \<and>
   take 3 (stdout (snd (main (sample_world None (Some (Error (OSError 98))) Blocks)))) =
     [''Serving MADOLA web app from: /srv/madola/web'',
      ''Open your browser to: http://localhost:8000'',
      ''Press Ctrl+C to stop the server''] \<and>
   listening (snd (main (sample_world None (Some (Error (OSError 98))) Blocks))) = None"
proof -
  have attempted: "(''/srv/madola/web'', TCPServer '''' 8000 SimpleHTTPRequestHandler)
     \<in> set (calls (snd (main (sample_world None (Some (Error (OSError 98))) Blocks))))"
    using run_bind_raises [of "sample_world None (Some (Error (OSError 98))) Blocks" "OSError 98"]
    by (simp add: web_dir_sample)
  show ?thesis
    using startup_lines_before_listener [OF attempted] attempted
    by (simp add: web_dir_sample)
qed

text \<open>
  C10. The working directory is changed before the listener is created and outside
  the interrupt handler, and is never changed back: every \<^verbatim>\<open>TCPServer\<close> call is made
  in \<open>web_dir\<close> and the process ends there; no call after the first is an
  \<^verbatim>\<open>os.chdir\<close>; a run whose listener cannot be created ends with status 1 in
  \<open>web_dir\<close>; and an interrupt raised by \<^verbatim>\<open>os.chdir\<close> itself is not handled.
\<close>

theorem chdir_before_listener_never_restored:
  "(\<forall>c h n k. (c, TCPServer h n k) \<in> set (calls (snd (main w))) \<longrightarrow>
      c = web_dir w \<and> cwd (snd (main w)) = web_dir w) \<and>
   (\<forall>x \<in> set (tl (map snd (calls (snd (main w))))). \<not> is_chdir x) \<and>
   (chdir_result w (web_dir w) = None \<and> bind_result w '''' PORT = Some (Error e) \<longrightarrow>
      cwd (snd (main w)) = web_dir w \<and> exit_status (fst (main w)) = Some 1) \<and>
   (chdir_result w (web_dir w) = Some KeyboardInterrupt \<longrightarrow>
      fst (main w) = Uncaught KeyboardInterrupt \<and> stdout (snd (main w)) = [])"
  by (cases w rule: world_cases) (simp_all add: runs PORT_def)

theorem chdir_before_listener_never_restored_witness:
  "(''/srv/madola/web'', TCPServer '''' 8000 SimpleHTTPRequestHandler)
     \<in> set (calls (snd (main (sample_world None (Some (Error (OSError 98))) Blocks)))) \<and>
   TCPServer '''' 8000 SimpleHTTPRequestHandler
     \<in> set (tl (map snd (calls (snd (main (sample_world None (Some (Error (OSError 98))) Blocks)))))) \<and>
   chdir_result (sample_world None (Some (Error (OSError 98))) Blocks)
     (web_dir (sample_world None (Some (Error (OSError 98))) Blocks)) = None \<and>
   bind_result (sample_world None (Some (Error (OSError 98))) Blocks) '''' PORT
     = Some (Error (OSError 98)) \<and>
   cwd (snd (main (sample_world None (Some (Error (OSError 98))) Blocks))) = ''/srv/madola/web'' \<and>
   exit_status (fst (main (sample_world None (Some (Error (OSError 98))) Blocks))) = Some 1 \<and>
   chdir_result (sample_world (Some KeyboardInterrupt) None Blocks)
     (web_dir (sample_world (Some KeyboardInterrupt) None Blocks)) = Some KeyboardInterrupt \<and>
   fst (main (sample_world (Some KeyboardInterrupt) None Blocks)) = Uncaught KeyboardInterrupt"
  using chdir_before_listener_never_restored
      [of "sample_world None (Some (Error (OSError 98))) Blocks" "OSError 98"]
    chdir_before_listener_never_restored
      [of "sample_world (Some KeyboardInterrupt) None Blocks" "OSError 98"]
    run_bind_raises [of "sample_world None (Some (Error (OSError 98))) Blocks" "OSError 98"]
  by (simp add: web_dir_sample)

end
